theory Spec2Isabelle
  imports Complex_Main "HOL-Library.Multiset"
begin

section \<open>Exceptions, messages and observable effects\<close>

text \<open>
  The handlers of \<^verbatim>\<open>vali_utils/api/routes.py\<close> raise and catch Python exceptions.
  Every exception that the handlers raise or that their collaborators can raise into them
  is a value of \<open>exn\<close>; all of them are subclasses of Python's \<^verbatim>\<open>Exception\<close>
  (FastAPI's \<^verbatim>\<open>HTTPException\<close> included), so a clause \<^verbatim>\<open>except Exception\<close>
  catches each of them. Message texts are kept symbolic: \<open>Str e\<close> stands for
  \<^verbatim>\<open>str(e)\<close>, \<open>Num n\<close> for a formatted number, \<open>Join\<close> for the pieces of an f-string.
\<close>

datatype exn =
    HTTPException nat msg
  | KeyError string
  | IndexError
  | TimeoutError
  | TransportError string
  | StorageError string
and msg =
    Text string
  | Num nat
  | Str exn
  | Join msg msg

text \<open>
  \<^verbatim>\<open>OnDemandRequest(source=..., usernames=..., keywords=..., start_date=..., end_date=..., limit=...)\<close>:
  the synapse sent to a peer, fields in the order of the constructor call. The source is the
  numeric value of the \<^verbatim>\<open>DataSource\<close> member.
\<close>

datatype on_demand_request =
  OnDemandRequest int "string list" "string list" "string option" "string option" int

text \<open>
  What a handler does besides returning: error lines written with \<^verbatim>\<open>bt.logging.error\<close>,
  calls of \<^verbatim>\<open>dendrite.forward(axons=[axon], synapse=synapse, timeout=t)\<close>, and the steps on
  the statistics store (lock, connection, cursor).
\<close>

datatype event =
    LogError msg
  | DendriteForward "string list" on_demand_request nat
  | LockAcquire
  | LockRelease
  | CreateConnection
  | Execute
  | FetchAll
  | ConnectionClose

text \<open>
  FastAPI answers a handler that returns with status 200, one that raises
  \<^verbatim>\<open>HTTPException(s, d)\<close> with status \<open>s\<close>, and any other escaping exception with 500.
\<close>

fun http_status :: "exn + 'r \<Rightarrow> nat" where
  "http_status (Inr r) = 200"
| "http_status (Inl (HTTPException s d)) = s"
| "http_status (Inl e) = 500"

section \<open>Source names\<close>

text \<open>
  \<^verbatim>\<open>source.upper()\<close> on the ASCII letters; every other character is left as it is.
\<close>

definition upper_char :: "char \<Rightarrow> char" where
  "upper_char c =
     (case map_of (zip ''abcdefghijklmnopqrstuvwxyz'' ''ABCDEFGHIJKLMNOPQRSTUVWXYZ'') c of
        None \<Rightarrow> c
      | Some C \<Rightarrow> C)"

definition upper :: "string \<Rightarrow> string" where
  "upper s = map upper_char s"

text \<open>
  \<^verbatim>\<open>DataSource[name]\<close>: the enum \<^verbatim>\<open>DataSource\<close> is declared in \<^verbatim>\<open>common/data.py\<close>,
  outside \<^verbatim>\<open>routes.py\<close>, so the table of its members (name to numeric value) is a
  parameter \<open>ds\<close>. A name that is no member raises \<^verbatim>\<open>KeyError\<close>.
\<close>

definition DataSource_lookup :: "(string \<rightharpoonup> int) \<Rightarrow> string \<Rightarrow> exn + int" where
  "DataSource_lookup ds name =
     (case ds name of None \<Rightarrow> Inl (KeyError name) | Some v \<Rightarrow> Inr v)"

section \<open>The peer membership view\<close>

text \<open>
  The metagraph is a snapshot of the network: position \<open>uid\<close> holds the incentive
  \<^verbatim>\<open>metagraph.I[uid]\<close>, the endpoint \<^verbatim>\<open>metagraph.axons[uid]\<close> and the role flag of
  neuron \<open>uid\<close>. The incentive is any linearly ordered weight.
\<close>

record 'w neuron =
  incentive :: 'w
  axon :: string
  coordinator :: bool

record 'w validator =
  metagraph :: "'w neuron list"
  uid :: nat
  wallet :: string

text \<open>
  Modelled from the spec: \<^verbatim>\<open>utils.is_miner\<close> is defined in \<^verbatim>\<open>common/utils.py\<close>, outside
  \<^verbatim>\<open>routes.py\<close>. In the spec a peer carries a "role flag (peer vs. coordinator)"; a uid
  is a miner when its neuron is no coordinator.
\<close>

definition is_miner :: "nat \<Rightarrow> 'w neuron list \<Rightarrow> bool" where
  "is_miner u mg = (u < length mg \<and> \<not> coordinator (mg ! u))"

text \<open>
  Modelled from the spec: \<^verbatim>\<open>utils.get_miner_uids\<close> is defined in \<^verbatim>\<open>common/utils.py\<close>,
  outside \<^verbatim>\<open>routes.py\<close>. The spec: "given the full peer set and the coordinator's own
  identifier, returns the subset excluding coordinators and the caller itself." The uids
  come in the order of the metagraph.
\<close>

definition get_miner_uids :: "'w neuron list \<Rightarrow> nat \<Rightarrow> nat list" where
  "get_miner_uids mg me = filter (\<lambda>u. is_miner u mg \<and> u \<noteq> me) [0..<length mg]"

section \<open>Python built-ins used by the handlers\<close>

text \<open>
  \<^verbatim>\<open>sorted(xs, key=key, reverse=True)\<close>: descending, and stable (elements with equal keys
  keep their order), which is a stable ascending sort of the reversed list, reversed.
\<close>

definition sorted_reverse :: "('a \<Rightarrow> 'k::linorder) \<Rightarrow> 'a list \<Rightarrow> 'a list" where
  "sorted_reverse key xs = rev (sort_key key (rev xs))"

text \<open>
  \<^verbatim>\<open>xs[:n]\<close> for an integer \<open>n\<close>: the first \<open>n\<close> elements, and for a negative \<open>n\<close>
  all but the last \<open>-n\<close>.
\<close>

definition slice_to :: "int \<Rightarrow> 'a list \<Rightarrow> 'a list" where
  "slice_to n xs = (if 0 \<le> n then take (nat n) xs else take (nat (int (length xs) + n)) xs)"

text \<open>
  \<^verbatim>\<open>random.choice(seq)\<close> raises \<^verbatim>\<open>IndexError\<close> on an empty sequence and otherwise returns
  \<^verbatim>\<open>seq[i]\<close> for an index \<open>i\<close> below \<^verbatim>\<open>len(seq)\<close> drawn by the generator. The draw is
  the parameter \<open>r\<close>, reduced below the length.
\<close>

definition random_choice :: "nat \<Rightarrow> 'a list \<Rightarrow> exn + 'a" where
  "random_choice r xs = (if xs = [] then Inl IndexError else Inr (xs ! (r mod length xs)))"

section \<open>POST /query\<close>

text \<open>
  The request body \<^verbatim>\<open>QueryRequest\<close>.
\<close>

record query_request =
  source :: string
  usernames :: "string list"
  keywords' :: "string list"
  start_date :: "string option"
  end_date :: "string option"
  limit :: int

text \<open>
  What \<^verbatim>\<open>await dendrite.forward(...)\<close> does is decided by the network: it raises (a timeout,
  a transport error), or it returns a response object, possibly \<^verbatim>\<open>None\<close>, whose
  \<^verbatim>\<open>data\<close> is a list of items or \<^verbatim>\<open>None\<close>.
\<close>

datatype 'a response = Response (data: "'a list option")

datatype 'a forward_outcome = Raised exn | Returned "'a response option"

text \<open>
  Everything the handler reads from outside the request: the validator, the members of
  \<^verbatim>\<open>DataSource\<close>, the draw of \<^verbatim>\<open>random.choice\<close>, the behaviour of the network at a
  call (axons, synapse, timeout), and Python's \<^verbatim>\<open>str\<close> and \<^verbatim>\<open>hash\<close> on items.
\<close>

record ('w, 'a) env =
  the_validator :: "'w validator"
  DataSource :: "string \<rightharpoonup> int"
  random_draw :: nat
  forward :: "string list \<Rightarrow> on_demand_request \<Rightarrow> nat \<Rightarrow> 'a forward_outcome"
  py_str :: "'a \<Rightarrow> string"
  py_hash :: "string \<Rightarrow> int"

record meta =
  total_responses :: nat
  unique_items :: nat
  miners_queried :: nat
  total_miners :: nat

record 'a query_response =
  status :: string
  data_out :: "'a list"
  meta_out :: meta

text \<open>
  Lines 33 to 37: \<^verbatim>\<open>sorted(miner_uids, key=lambda uid: metagraph.I[uid], reverse=True)[:len(miner_uids) // 2]\<close>.
  \<^verbatim>\<open>metagraph.I[uid]\<close> raises \<^verbatim>\<open>IndexError\<close> for a uid outside the metagraph.
\<close>

definition qualified_miners :: "('w::linorder) neuron list \<Rightarrow> nat list \<Rightarrow> exn + nat list" where
  "qualified_miners mg miner_uids =
     (if list_all (\<lambda>u. u < length mg) miner_uids
      then Inr (take (length miner_uids div 2)
                  (sorted_reverse (\<lambda>u. incentive (mg ! u)) miner_uids))
      else Inl IndexError)"

text \<open>
  Lines 53 to 68: one uid is drawn from \<^verbatim>\<open>miner_uids\<close>; if it is a miner, its axon is
  called once with timeout 30. The result is the list \<^verbatim>\<open>responses\<close>; an exception of the
  call is logged and not raised again. \<^verbatim>\<open>response and response.data\<close> holds for a
  response that is not \<^verbatim>\<open>None\<close> and whose data is a non-empty list.
\<close>

definition query_miners ::
  "('w, 'a) env \<Rightarrow> nat list \<Rightarrow> on_demand_request \<Rightarrow> event list \<times> (exn + 'a list list)" where
  "query_miners e miner_uids synapse =
     (let mg = metagraph (the_validator e) in
      case random_choice (random_draw e) miner_uids of
        Inl x \<Rightarrow> ([], Inl x)
      | Inr u \<Rightarrow>
          if is_miner u mg then
            (case forward e [axon (mg ! u)] synapse 30 of
               Raised x \<Rightarrow>
                 ([DendriteForward [axon (mg ! u)] synapse 30,
                   LogError (Join (Text ''Error querying miner '')
                              (Join (Num u) (Join (Text '': '') (Str x))))],
                  Inr [])
             | Returned None \<Rightarrow> ([DendriteForward [axon (mg ! u)] synapse 30], Inr [])
             | Returned (Some (Response None)) \<Rightarrow>
                 ([DendriteForward [axon (mg ! u)] synapse 30], Inr [])
             | Returned (Some (Response (Some d))) \<Rightarrow>
                 ([DendriteForward [axon (mg ! u)] synapse 30],
                  Inr (if d = [] then [] else [d])))
          else ([], Inr []))"

text \<open>
  Lines 74 to 81: the two nested loops over \<^verbatim>\<open>responses\<close> and their items, with the
  state \<^verbatim>\<open>(seen, all_data)\<close>; \<open>h\<close> is \<^verbatim>\<open>hash(str(item))\<close>.
\<close>

definition process_item :: "('a \<Rightarrow> int) \<Rightarrow> 'a \<Rightarrow> int set \<times> 'a list \<Rightarrow> int set \<times> 'a list" where
  "process_item h item st =
     (if h item \<notin> fst st then (insert (h item) (fst st), snd st @ [item]) else st)"

definition process_data :: "('a \<Rightarrow> int) \<Rightarrow> 'a list list \<Rightarrow> 'a list" where
  "process_data h responses =
     snd (fold (\<lambda>response st. fold (process_item h) response st) responses ({}, []))"

text \<open>
  The body of the \<^verbatim>\<open>try\<close> block of \<^verbatim>\<open>query_data\<close>, lines 28 to 92.
\<close>

definition query_data_try ::
  "('w::linorder, 'a) env \<Rightarrow> query_request \<Rightarrow> event list \<times> (exn + 'a query_response)" where
  "query_data_try e request =
     (let v = the_validator e;
          miner_uids = get_miner_uids (metagraph v) (uid v) in
      case qualified_miners (metagraph v) miner_uids of
        Inl x \<Rightarrow> ([], Inl x)
      | Inr miners \<Rightarrow>
          if miners = [] then ([], Inl (HTTPException 503 (Text ''No miners available'')))
          else
            (case DataSource_lookup (DataSource e) (upper (source request)) of
               Inl x \<Rightarrow> ([], Inl x)
             | Inr src \<Rightarrow>
                 (let synapse = OnDemandRequest src (usernames request) (keywords' request)
                                  (start_date request) (end_date request) (limit request)
                  in case query_miners e miner_uids synapse of
                       (evs, Inl x) \<Rightarrow> (evs, Inl x)
                     | (evs, Inr responses) \<Rightarrow>
                         (let all_data = process_data (\<lambda>item. py_hash e (py_str e item)) responses
                          in (evs,
                              Inr \<lparr>status = ''success'',
                                   data_out = slice_to (limit request) all_data,
                                   meta_out = \<lparr>total_responses = length responses,
                                                unique_items = length all_data,
                                                miners_queried = length miners,
                                                total_miners = length miner_uids\<rparr>\<rparr>)))))"

text \<open>
  The handler: the \<^verbatim>\<open>try\<close> block under \<^verbatim>\<open>except Exception as e\<close> (lines 94 to 96), which
  logs and raises \<^verbatim>\<open>HTTPException(500, str(e))\<close> for every exception of the block, the
  \<^verbatim>\<open>HTTPException\<close> of line 40 included.
\<close>

definition query_data ::
  "('w::linorder, 'a) env \<Rightarrow> query_request \<Rightarrow> event list \<times> (exn + 'a query_response)" where
  "query_data e request =
     (case query_data_try e request of
        (evs, Inl x) \<Rightarrow>
          (evs @ [LogError (Join (Text ''Error processing request: '') (Str x))],
           Inl (HTTPException 500 (Str x)))
      | (evs, Inr r) \<Rightarrow> (evs, Inr r))"

section \<open>The statistics store\<close>

text \<open>
  The tables read by the two aggregate queries, with the columns the queries name. The
  tables are created outside \<^verbatim>\<open>routes.py\<close>; sizes and ids are integers, and the
  credibility of a miner is a rational number (the store's floating-point rounding is
  not modelled).
\<close>

record label_row =
  ls_source :: int
  ls_labelValue :: string
  ls_contentSizeBytes :: int
  ls_adjContentSizeBytes :: int

record miner_row =
  m_minerId :: int
  m_credibility :: rat

record index_row =
  mi_minerId :: int
  mi_source :: int
  mi_timeBucketId :: int
  mi_contentSizeBytes :: int

text \<open>
  \<^verbatim>\<open>validator.evaluator.storage\<close>: the three tables, and whether
  \<^verbatim>\<open>_create_connection()\<close>, \<^verbatim>\<open>cursor.execute(...)\<close> and \<^verbatim>\<open>cursor.fetchall()\<close> raise.
\<close>

record store =
  create_connection_error :: "exn option"
  execute_error :: "exn option"
  fetchall_error :: "exn option"
  APILabelSize :: "label_row list"
  Miner :: "miner_row list"
  MinerIndex :: "index_row list"

datatype LabelSize =
  LabelSize (label_value: string) (content_size_bytes: int) (adj_content_size_bytes: int)

datatype AgeSize =
  AgeSize (time_bucket_id: int) (age_content_size_bytes: int) (age_adj_content_size_bytes: rat)

text \<open>
  \<^verbatim>\<open>ORDER BY key DESC\<close>. SQL leaves the order of rows with equal keys open; here they
  come out in the reverse of their input order.
\<close>

definition order_by_desc :: "('a \<Rightarrow> 'k::linorder) \<Rightarrow> 'a list \<Rightarrow> 'a list" where
  "order_by_desc key rows = rev (sort_key key rows)"

text \<open>
  Lines 127 to 135:
  \<^verbatim>\<open>SELECT labelValue, contentSizeBytes, adjContentSizeBytes FROM APILabelSize
  WHERE source = ? ORDER BY adjContentSizeBytes DESC\<close>.
\<close>

definition select_label_sizes :: "label_row list \<Rightarrow> int \<Rightarrow> (string \<times> int \<times> int) list" where
  "select_label_sizes tbl source_id =
     map (\<lambda>r. (ls_labelValue r, ls_contentSizeBytes r, ls_adjContentSizeBytes r))
       (order_by_desc ls_adjContentSizeBytes (filter (\<lambda>r. ls_source r = source_id) tbl))"

text \<open>
  Lines 171 to 181:
  \<^verbatim>\<open>SELECT timeBucketId, SUM(contentSizeBytes), SUM(contentSizeBytes * credibility)
  FROM Miner JOIN MinerIndex USING (minerId) WHERE source = ?
  GROUP BY timeBucketId ORDER BY timeBucketId DESC\<close>.
  The join pairs every miner with every index row of the same \<^verbatim>\<open>minerId\<close>;
  \<^verbatim>\<open>source\<close>, \<^verbatim>\<open>timeBucketId\<close> and \<^verbatim>\<open>contentSizeBytes\<close> are columns of \<^verbatim>\<open>MinerIndex\<close>,
  \<^verbatim>\<open>credibility\<close> of \<^verbatim>\<open>Miner\<close>. The groups are accumulated row by row, one accumulator
  (bucket, sum, weighted sum) per bucket.
\<close>

definition miner_join_index :: "miner_row list \<Rightarrow> index_row list \<Rightarrow> (miner_row \<times> index_row) list" where
  "miner_join_index ms ixs =
     concat (map (\<lambda>m. map (\<lambda>i. (m, i)) (filter (\<lambda>i. mi_minerId i = m_minerId m) ixs)) ms)"

fun group_add :: "int \<Rightarrow> int \<Rightarrow> rat \<Rightarrow> (int \<times> int \<times> rat) list \<Rightarrow> (int \<times> int \<times> rat) list" where
  "group_add b s a [] = [(b, s, a)]"
| "group_add b s a ((b', s', a') # gs) =
     (if b = b' then (b', s' + s, a' + a) # gs else (b', s', a') # group_add b s a gs)"

definition group_by_timeBucketId :: "(miner_row \<times> index_row) list \<Rightarrow> (int \<times> int \<times> rat) list" where
  "group_by_timeBucketId rows =
     fold (\<lambda>mi gs. group_add (mi_timeBucketId (snd mi)) (mi_contentSizeBytes (snd mi))
                      (of_int (mi_contentSizeBytes (snd mi)) * m_credibility (fst mi)) gs)
          rows []"

definition select_age_sizes :: "miner_row list \<Rightarrow> index_row list \<Rightarrow> int \<Rightarrow> (int \<times> int \<times> rat) list" where
  "select_age_sizes ms ixs source_id =
     order_by_desc fst
       (group_by_timeBucketId
          (filter (\<lambda>mi. mi_source (snd mi) = source_id) (miner_join_index ms ixs)))"

text \<open>
  \<^verbatim>\<open>with validator.evaluator.storage.lock: body\<close>: the lock is acquired, the body runs,
  and the lock is released when the body is left, by \<^verbatim>\<open>return\<close> or by an exception.
\<close>

definition with_lock :: "event list \<times> (exn + 'r) \<Rightarrow> event list \<times> (exn + 'r)" where
  "with_lock body = (LockAcquire # fst body @ [LockRelease], snd body)"

text \<open>
  The body under the lock (lines 124 to 147 and 168 to 192): create the connection,
  execute the query, fetch all rows and build the records, close the connection, return.
  An exception of a step leaves the body at that step; \<^verbatim>\<open>connection.close()\<close> is the
  last statement before \<^verbatim>\<open>return\<close> and is not in a \<^verbatim>\<open>finally\<close> clause. \<open>CreateConnection\<close>
  is recorded when the connection exists, \<open>Execute\<close> and \<open>FetchAll\<close> when the call starts.
\<close>

definition read_rows :: "store \<Rightarrow> 'r list \<Rightarrow> event list \<times> (exn + 'r list)" where
  "read_rows st records =
     (case create_connection_error st of
        Some x \<Rightarrow> ([], Inl x)
      | None \<Rightarrow>
          (case execute_error st of
             Some x \<Rightarrow> ([CreateConnection, Execute], Inl x)
           | None \<Rightarrow>
               (case fetchall_error st of
                  Some x \<Rightarrow> ([CreateConnection, Execute, FetchAll], Inl x)
                | None \<Rightarrow>
                    ([CreateConnection, Execute, FetchAll, ConnectionClose], Inr records))))"

text \<open>
  Lines 118 to 121: \<^verbatim>\<open>DataSource[source.upper()].value\<close>, with \<^verbatim>\<open>KeyError\<close> turned into
  \<^verbatim>\<open>HTTPException(400, f"Invalid source: {source}")\<close>.
\<close>

definition validate_source :: "(string \<rightharpoonup> int) \<Rightarrow> string \<Rightarrow> exn + int" where
  "validate_source ds src =
     (case DataSource_lookup ds (upper src) of
        Inl (KeyError k) \<Rightarrow> Inl (HTTPException 400 (Text (''Invalid source: '' @ src)))
      | Inl x \<Rightarrow> Inl x
      | Inr source_id \<Rightarrow> Inr source_id)"

section \<open>GET /labels/{source}\<close>

definition get_label_sizes_try ::
  "(string \<rightharpoonup> int) \<Rightarrow> store \<Rightarrow> string \<Rightarrow> event list \<times> (exn + LabelSize list)" where
  "get_label_sizes_try ds st src =
     (case validate_source ds src of
        Inl x \<Rightarrow> ([], Inl x)
      | Inr source_id \<Rightarrow>
          with_lock (read_rows st
            (map (\<lambda>row. LabelSize (fst row) (fst (snd row)) (snd (snd row)))
               (select_label_sizes (APILabelSize st) source_id))))"

text \<open>
  The outer \<^verbatim>\<open>except Exception as e\<close> (lines 149 to 151) logs and raises
  \<^verbatim>\<open>HTTPException(500, str(e))\<close> for every exception of the block, the
  \<^verbatim>\<open>HTTPException(400, ...)\<close> of line 121 included.
\<close>

definition get_label_sizes ::
  "(string \<rightharpoonup> int) \<Rightarrow> store \<Rightarrow> string \<Rightarrow> event list \<times> (exn + LabelSize list)" where
  "get_label_sizes ds st src =
     (case get_label_sizes_try ds st src of
        (evs, Inl x) \<Rightarrow>
          (evs @ [LogError (Join (Text ''Error getting label sizes: '') (Str x))],
           Inl (HTTPException 500 (Str x)))
      | (evs, Inr labels) \<Rightarrow> (evs, Inr labels))"

section \<open>GET /ages/{source}\<close>

definition get_age_sizes_try ::
  "(string \<rightharpoonup> int) \<Rightarrow> store \<Rightarrow> string \<Rightarrow> event list \<times> (exn + AgeSize list)" where
  "get_age_sizes_try ds st src =
     (case validate_source ds src of
        Inl x \<Rightarrow> ([], Inl x)
      | Inr source_id \<Rightarrow>
          with_lock (read_rows st
            (map (\<lambda>row. AgeSize (fst row) (fst (snd row)) (snd (snd row)))
               (select_age_sizes (Miner st) (MinerIndex st) source_id))))"

text \<open>
  The outer \<^verbatim>\<open>except Exception as e\<close> (lines 193 to 194) raises
  \<^verbatim>\<open>HTTPException(500, f"Error retrieving age sizes: {str(e)}")\<close> and logs nothing.
\<close>

definition get_age_sizes ::
  "(string \<rightharpoonup> int) \<Rightarrow> store \<Rightarrow> string \<Rightarrow> event list \<times> (exn + AgeSize list)" where
  "get_age_sizes ds st src =
     (case get_age_sizes_try ds st src of
        (evs, Inl x) \<Rightarrow>
          (evs, Inl (HTTPException 500 (Join (Text ''Error retrieving age sizes: '') (Str x))))
      | (evs, Inr ages) \<Rightarrow> (evs, Inr ages))"

section \<open>Notions used to state the properties\<close>

text \<open>
  The calls of \<^verbatim>\<open>dendrite.forward\<close> among the events of a run.
\<close>

fun is_forward :: "event \<Rightarrow> bool" where
  "is_forward (DendriteForward axs syn t) = True"
| "is_forward ev = False"

definition forward_calls :: "event list \<Rightarrow> event list" where
  "forward_calls evs = filter is_forward evs"

text \<open>
  The merge as the specification words it: of the flattened payloads, in arrival order,
  only the first occurrence of each identity is kept.
\<close>

fun first_occurrences :: "('a \<Rightarrow> int) \<Rightarrow> 'a list \<Rightarrow> 'a list" where
  "first_occurrences h [] = []"
| "first_occurrences h (x # xs) = x # first_occurrences h (filter (\<lambda>y. h y \<noteq> h x) xs)"

text \<open>
  Modelled from the spec: the table \<^verbatim>\<open>APILabelSize\<close> is created outside \<^verbatim>\<open>routes.py\<close>.
  The spec's data model has a label size record "produced per (source, label)": the table
  holds at most one row for a source and a label.
\<close>

definition APILabelSize_key :: "label_row list \<Rightarrow> bool" where
  "APILabelSize_key tbl = distinct (map (\<lambda>r. (ls_source r, ls_labelValue r)) tbl)"


section \<open>Concrete inputs\<close>

text \<open>
  A network of four neurons: the validator itself (uid 0), a miner of weight 10 (uid 1),
  another validator (uid 2) and a miner of weight 5 (uid 3).
\<close>

definition ex_metagraph :: "nat neuron list" where
  "ex_metagraph =
     [\<lparr>incentive = 0, axon = ''10.0.0.0:8091'', coordinator = True\<rparr>,
      \<lparr>incentive = 10, axon = ''10.0.0.1:8091'', coordinator = False\<rparr>,
      \<lparr>incentive = 0, axon = ''10.0.0.2:8091'', coordinator = True\<rparr>,
      \<lparr>incentive = 5, axon = ''10.0.0.3:8091'', coordinator = False\<rparr>]"

definition ex_sources :: "string \<rightharpoonup> int" where
  "ex_sources = [''REDDIT'' \<mapsto> 1, ''X'' \<mapsto> 2]"

text \<open>
  Items are numbers; \<open>str\<close> of \<open>n\<close> is a row of \<open>n\<close> marks and the hash of a string its
  length. The drawn peer (index 1 of the pool, uid 3) answers with four items, two of
  them equal.
\<close>

definition ex_env :: "(nat, nat) env" where
  "ex_env =
     \<lparr>the_validator = \<lparr>metagraph = ex_metagraph, uid = 0, wallet = ''validator''\<rparr>,
      DataSource = ex_sources,
      random_draw = 1,
      forward = (\<lambda>axs syn t. Returned (Some (Response (Some [1, 2, 1, 3])))),
      py_str = (\<lambda>n. replicate n (CHR ''x'')),
      py_hash = (\<lambda>s. int (length s))\<rparr>"

text \<open>The same network with a peer whose call times out.\<close>

definition ex_env_timeout :: "(nat, nat) env" where
  "ex_env_timeout = ex_env\<lparr>forward := (\<lambda>axs syn t. Raised TimeoutError)\<rparr>"

text \<open>A network that consists of the validator alone: no eligible peer.\<close>

definition ex_env_alone :: "(nat, nat) env" where
  "ex_env_alone =
     ex_env\<lparr>the_validator :=
       \<lparr>metagraph = [\<lparr>incentive = 0, axon = ''10.0.0.0:8091'', coordinator = True\<rparr>],
        uid = 0, wallet = ''validator''\<rparr>\<rparr>"

definition ex_request :: query_request where
  "ex_request =
     \<lparr>source = ''reddit'', usernames = [], keywords' = [''isabelle''],
      start_date = None, end_date = None, limit = 3\<rparr>"

definition ex_request_unknown :: query_request where
  "ex_request_unknown = ex_request\<lparr>source := ''myspace''\<rparr>"

definition ex_store :: store where
  "ex_store =
     \<lparr>create_connection_error = None, execute_error = None, fetchall_error = None,
      APILabelSize =
        [\<lparr>ls_source = 1, ls_labelValue = ''r/a'', ls_contentSizeBytes = 100, ls_adjContentSizeBytes = 40\<rparr>,
         \<lparr>ls_source = 2, ls_labelValue = ''#x'', ls_contentSizeBytes = 70, ls_adjContentSizeBytes = 70\<rparr>,
         \<lparr>ls_source = 1, ls_labelValue = ''r/b'', ls_contentSizeBytes = 90, ls_adjContentSizeBytes = 80\<rparr>],
      Miner =
        [\<lparr>m_minerId = 1, m_credibility = 1 / 2\<rparr>,
         \<lparr>m_minerId = 2, m_credibility = 1\<rparr>],
      MinerIndex =
        [\<lparr>mi_minerId = 1, mi_source = 1, mi_timeBucketId = 7, mi_contentSizeBytes = 10\<rparr>,
         \<lparr>mi_minerId = 2, mi_source = 1, mi_timeBucketId = 9, mi_contentSizeBytes = 4\<rparr>,
         \<lparr>mi_minerId = 2, mi_source = 1, mi_timeBucketId = 7, mi_contentSizeBytes = 6\<rparr>,
         \<lparr>mi_minerId = 2, mi_source = 2, mi_timeBucketId = 9, mi_contentSizeBytes = 5\<rparr>]\<rparr>"

text \<open>The same store when the query cannot be executed.\<close>

definition ex_store_failing :: store where
  "ex_store_failing = ex_store\<lparr>execute_error := Some (StorageError ''no such table'')\<rparr>"

section \<open>Auxiliary facts\<close>

subsection \<open>The merge loop\<close>

lemma process_item_pair:
  "process_item h x (seen, acc) =
     (if h x \<in> seen then (seen, acc) else (insert (h x) seen, acc @ [x]))"
  by (simp add: process_item_def)
lemma fold_process_item:
  "fold (process_item h) xs (seen, acc) =
     (seen \<union> h ` set xs, acc @ first_occurrences h (filter (\<lambda>y. h y \<notin> seen) xs))"
proof (induction xs arbitrary: seen acc)
  case Nil
  then show ?case by simp
next
  case (Cons x xs)
  show ?case
  proof (cases "h x \<in> seen")
    case True
    then show ?thesis
      by (simp add: process_item_pair Cons.IH insert_absorb)
  next
    case False
    have eq: "filter (\<lambda>y. h y \<notin> insert (h x) seen) xs
            = filter (\<lambda>y. h y \<noteq> h x) (filter (\<lambda>y. h y \<notin> seen) xs)"
      by (induction xs) auto
    from False show ?thesis
      by (simp add: process_item_pair Cons.IH eq conj_commute)
  qed
qed
lemma process_data_first_occurrences:
  "process_data h responses = first_occurrences h (concat responses)"
proof -
  have "fold (\<lambda>response st. fold (process_item h) response st) responses st
        = fold (process_item h) (concat responses) st" for st
    by (induction responses arbitrary: st) simp_all
  then show ?thesis
    by (simp add: process_data_def fold_process_item)
qed
lemma process_data_Nil: "process_data h [] = []"
  by (simp add: process_data_def)
lemma first_occurrences_subset: "set (first_occurrences h xs) \<subseteq> set xs"
  by (induction h xs rule: first_occurrences.induct) auto
lemma first_occurrences_distinct: "distinct (map h (first_occurrences h xs))"
proof (induction h xs rule: first_occurrences.induct)
  case (1 h)
  then show ?case by simp
next
  case (2 h x xs)
  have "h x \<notin> h ` set (first_occurrences h (filter (\<lambda>y. h y \<noteq> h x) xs))"
    using first_occurrences_subset [of h "filter (\<lambda>y. h y \<noteq> h x) xs"] by auto
  with 2 show ?case by simp
qed
lemma first_occurrences_hashes: "h ` set (first_occurrences h xs) = h ` set xs"
proof (induction h xs rule: first_occurrences.induct)
  case (1 h)
  then show ?case by simp
next
  case (2 h x xs)
  then show ?case by auto
qed
lemma distinct_map_take: "distinct (map f xs) \<Longrightarrow> distinct (map f (take n xs))"
  by (simp add: take_map [symmetric])
lemma slice_to_length: "0 \<le> n \<Longrightarrow> int (length (slice_to n xs)) \<le> n"
  by (simp add: slice_to_def)
lemma slice_to_Nil: "slice_to n [] = []"
  by (simp add: slice_to_def)
subsection \<open>Sorting\<close>

lemma sorted_reverse_mset: "mset (sorted_reverse key xs) = mset xs"
  by (simp add: sorted_reverse_def)
lemma sorted_reverse_descending: "sorted_wrt (\<lambda>a b. key b \<le> key a) (sorted_reverse key xs)"
proof -
  have "sorted (map key (sort_key key (rev xs)))"
    by (rule sorted_sort_key)
  then have "sorted_wrt (\<lambda>a b. key a \<le> key b) (sort_key key (rev xs))"
    by (simp add: sorted_wrt_map)
  then show ?thesis
    by (simp add: sorted_reverse_def sorted_wrt_rev)
qed
lemma order_by_desc_mset: "mset (order_by_desc key rows) = mset rows"
  by (simp add: order_by_desc_def)
lemma order_by_desc_descending: "sorted_wrt (\<lambda>a b. key b \<le> key a) (order_by_desc key rows)"
proof -
  have "sorted (map key (sort_key key rows))"
    by (rule sorted_sort_key)
  then have "sorted_wrt (\<lambda>a b. key a \<le> key b) (sort_key key rows)"
    by (simp add: sorted_wrt_map)
  then show ?thesis
    by (simp add: order_by_desc_def sorted_wrt_rev)
qed
lemma distinct_map_mset_eq:
  assumes "mset xs = mset ys" and "distinct (map f ys)"
  shows "distinct (map f xs)"
proof -
  from assms(1) have "mset (map f xs) = mset (map f ys)"
    by simp
  with assms(2) show ?thesis
    by (metis mset_eq_imp_distinct_iff)
qed
subsection \<open>The eligible pool and the qualified half\<close>

lemma get_miner_uids_set:
  "set (get_miner_uids mg me) = {u. u < length mg \<and> \<not> coordinator (mg ! u) \<and> u \<noteq> me}"
  by (auto simp: get_miner_uids_def is_miner_def)
lemma get_miner_uids_in_range: "list_all (\<lambda>u. u < length mg) (get_miner_uids mg me)"
  by (simp add: list_all_iff get_miner_uids_set)
lemma get_miner_uids_is_miner: "u \<in> set (get_miner_uids mg me) \<Longrightarrow> is_miner u mg"
  by (simp add: get_miner_uids_set is_miner_def)
lemma get_miner_uids_distinct: "distinct (get_miner_uids mg me)"
  by (simp add: get_miner_uids_def)
lemma qualified_miners_pool:
  "qualified_miners mg (get_miner_uids mg me) =
     Inr (take (length (get_miner_uids mg me) div 2)
            (sorted_reverse (\<lambda>u. incentive (mg ! u)) (get_miner_uids mg me)))"
  by (simp add: qualified_miners_def get_miner_uids_in_range)
lemma qualified_miners_length:
  "qualified_miners mg (get_miner_uids mg me) = Inr miners \<Longrightarrow>
     length miners = length (get_miner_uids mg me) div 2"
proof -
  assume "qualified_miners mg (get_miner_uids mg me) = Inr miners"
  then have "miners = take (length (get_miner_uids mg me) div 2)
            (sorted_reverse (\<lambda>u. incentive (mg ! u)) (get_miner_uids mg me))"
    by (simp add: qualified_miners_pool)
  moreover have "length (sorted_reverse (\<lambda>u. incentive (mg ! u)) (get_miner_uids mg me))
     = length (get_miner_uids mg me)"
    by (simp add: sorted_reverse_def)
  ultimately show ?thesis by simp
qed
lemma pool_member_outside_qualified:
  fixes mg :: "('w::linorder) neuron list"
  assumes "2 \<le> length (get_miner_uids mg me)"
    and "qualified_miners mg (get_miner_uids mg me) = Inr miners"
  shows "\<exists>i<length (get_miner_uids mg me). get_miner_uids mg me ! i \<notin> set miners"
proof -
  let ?pool = "get_miner_uids mg me"
  have "length miners = length ?pool div 2"
    using assms(2) by (rule qualified_miners_length)
  with assms(1) have "length miners < length ?pool"
    by simp
  moreover have "card (set miners) \<le> length miners"
    by (rule card_length)
  moreover have "card (set ?pool) = length ?pool"
    by (simp add: distinct_card get_miner_uids_distinct)
  ultimately have "card (set miners) < card (set ?pool)"
    by simp
  then have "\<not> set ?pool \<subseteq> set miners"
    by (meson List.finite_set card_mono not_less)
  then obtain u where "u \<in> set ?pool" "u \<notin> set miners"
    by blast
  then show ?thesis
    by (metis in_set_conv_nth)
qed
subsection \<open>The outcomes of the query handler\<close>

lemma query_data_500: "snd (query_data e request) = Inl x \<Longrightarrow> \<exists>y. x = HTTPException 500 (Str y)"
  by (auto simp: query_data_def split: prod.splits sum.splits)
lemma query_data_status: "http_status (snd (query_data e request)) \<in> {200, 500}"
  by (cases "snd (query_data e request)") (auto dest: query_data_500)
lemma query_empty_pool_500:
  fixes e :: "('w::linorder, 'a) env"
  assumes "get_miner_uids (metagraph (the_validator e)) (uid (the_validator e)) = []"
  shows "snd (query_data e request) =
           Inl (HTTPException 500 (Str (HTTPException 503 (Text ''No miners available''))))"
  using assms
  by (simp add: query_data_def query_data_try_def qualified_miners_def sorted_reverse_def)
lemma query_data_success:
  assumes "snd (query_data e request) = Inr r"
  shows "\<exists>miners src evs responses.
           qualified_miners (metagraph (the_validator e))
             (get_miner_uids (metagraph (the_validator e)) (uid (the_validator e))) = Inr miners
         \<and> miners \<noteq> []
         \<and> DataSource e (upper (source request)) = Some src
         \<and> query_miners e (get_miner_uids (metagraph (the_validator e)) (uid (the_validator e)))
             (OnDemandRequest src (usernames request) (keywords' request)
                (start_date request) (end_date request) (limit request)) = (evs, Inr responses)
         \<and> fst (query_data e request) = evs
         \<and> r = \<lparr>status = ''success'',
                 data_out = slice_to (limit request)
                   (process_data (\<lambda>item. py_hash e (py_str e item)) responses),
                 meta_out = \<lparr>total_responses = length responses,
                   unique_items = length (process_data (\<lambda>item. py_hash e (py_str e item)) responses),
                   miners_queried = length miners,
                   total_miners = length (get_miner_uids (metagraph (the_validator e)) (uid (the_validator e)))\<rparr>\<rparr>"
  using assms
  by (auto simp: query_data_def query_data_try_def Let_def DataSource_lookup_def
      split: prod.splits sum.splits if_splits option.splits)
subsection \<open>The calls issued by the query handler\<close>

lemma query_miners_pool_calls:
  assumes "pool \<noteq> []" and "\<forall>u \<in> set pool. is_miner u (metagraph (the_validator e))"
  shows "forward_calls (fst (query_miners e pool syn)) =
           [DendriteForward [axon (metagraph (the_validator e) ! (pool ! (random_draw e mod length pool)))] syn 30]"
    and "\<exists>responses. snd (query_miners e pool syn) = Inr responses"
proof -
  from assms(1) have "pool ! (random_draw e mod length pool) \<in> set pool"
    by simp
  with assms(2) have m: "is_miner (pool ! (random_draw e mod length pool)) (metagraph (the_validator e))"
    by blast
  from assms(1) m
  show "forward_calls (fst (query_miners e pool syn)) =
           [DendriteForward [axon (metagraph (the_validator e) ! (pool ! (random_draw e mod length pool)))] syn 30]"
    by (simp add: query_miners_def random_choice_def forward_calls_def Let_def
        split: forward_outcome.splits option.splits response.splits)
  from assms(1) m
  show "\<exists>responses. snd (query_miners e pool syn) = Inr responses"
    by (simp add: query_miners_def random_choice_def Let_def
        split: forward_outcome.splits option.splits response.splits)
qed
lemma query_miners_raised:
  assumes "DendriteForward axs syn t \<in> set (fst (query_miners e pool synapse))"
    and "forward e axs syn t = Raised x"
  shows "\<exists>u. query_miners e pool synapse =
           ([DendriteForward axs syn t,
             LogError (Join (Text ''Error querying miner '')
                        (Join (Num u) (Join (Text '': '') (Str x))))],
            Inr [])"
  using assms
  by (auto simp: query_miners_def Let_def
      split: sum.splits if_splits forward_outcome.splits option.splits response.splits)
lemma forward_calls_append_log: "forward_calls (evs @ [LogError m]) = forward_calls evs"
  by (simp add: forward_calls_def)
lemma query_data_calls:
  "forward_calls (fst (query_data e request)) = forward_calls (fst (query_data_try e request))"
  by (simp add: query_data_def forward_calls_append_log split: prod.splits sum.splits)
lemma query_data_try_calls_reached:
  fixes e :: "('w::linorder, 'a) env"
  assumes "2 \<le> length (get_miner_uids (metagraph (the_validator e)) (uid (the_validator e)))"
    and "DataSource e (upper (source request)) = Some src"
  shows "fst (query_data_try e request) =
     fst (query_miners e (get_miner_uids (metagraph (the_validator e)) (uid (the_validator e)))
        (OnDemandRequest src (usernames request) (keywords' request)
                (start_date request) (end_date request) (limit request)))"
proof -
  let ?pool = "get_miner_uids (metagraph (the_validator e)) (uid (the_validator e))"
  obtain miners where q: "qualified_miners (metagraph (the_validator e)) ?pool = Inr miners"
    by (simp add: qualified_miners_pool)
  then have "length miners = length ?pool div 2"
    by (rule qualified_miners_length)
  with assms(1) have "miners \<noteq> []"
    by auto
  with q assms(2) show ?thesis
    by (simp add: query_data_try_def Let_def DataSource_lookup_def split: prod.splits sum.splits)
qed
lemma query_data_try_calls_unreached:
  fixes e :: "('w::linorder, 'a) env"
  assumes "\<not> 2 \<le> length (get_miner_uids (metagraph (the_validator e)) (uid (the_validator e)))
     \<or> DataSource e (upper (source request)) = None"
  shows "fst (query_data_try e request) = []"
proof -
  let ?pool = "get_miner_uids (metagraph (the_validator e)) (uid (the_validator e))"
  obtain miners where q: "qualified_miners (metagraph (the_validator e)) ?pool = Inr miners"
    by (simp add: qualified_miners_pool)
  then have l: "length miners = length ?pool div 2"
    by (rule qualified_miners_length)
  from assms show ?thesis
  proof
    assume "\<not> 2 \<le> length ?pool"
    with l have "miners = []" by simp
    with q show ?thesis
      by (simp add: query_data_try_def Let_def)
  next
    assume "DataSource e (upper (source request)) = None"
    with q show ?thesis
      by (simp add: query_data_try_def Let_def DataSource_lookup_def)
  qed
qed
lemma query_data_try_raised:
  fixes e :: "('w::linorder, 'a) env"
  assumes "DendriteForward axs syn t \<in> set (fst (query_data_try e request))"
    and "forward e axs syn t = Raised x"
  shows "\<exists>u k. query_data_try e request =
           ([DendriteForward axs syn t,
             LogError (Join (Text ''Error querying miner '')
                        (Join (Num u) (Join (Text '': '') (Str x))))],
            Inr \<lparr>status = ''success'', data_out = [],
                 meta_out = \<lparr>total_responses = 0, unique_items = 0,
                   miners_queried = k,
                   total_miners = length (get_miner_uids (metagraph (the_validator e)) (uid (the_validator e)))\<rparr>\<rparr>)"
proof -
  let ?pool = "get_miner_uids (metagraph (the_validator e)) (uid (the_validator e))"
  from assms(1) obtain src miners where
    src: "DataSource e (upper (source request)) = Some src" and
    q: "qualified_miners (metagraph (the_validator e)) ?pool = Inr miners" and
    ne: "miners \<noteq> []" and
    fst_eq: "fst (query_data_try e request) = fst (query_miners e ?pool
        (OnDemandRequest src (usernames request) (keywords' request)
                (start_date request) (end_date request) (limit request)))"
    by (auto simp: query_data_try_def Let_def DataSource_lookup_def
        split: sum.splits if_splits option.splits prod.splits)
  from assms(1) fst_eq have "DendriteForward axs syn t \<in> set (fst (query_miners e ?pool
        (OnDemandRequest src (usernames request) (keywords' request)
                (start_date request) (end_date request) (limit request))))"
    by simp
  from query_miners_raised [OF this assms(2)] obtain u where
    "query_miners e ?pool
        (OnDemandRequest src (usernames request) (keywords' request)
                (start_date request) (end_date request) (limit request)) =
           ([DendriteForward axs syn t,
             LogError (Join (Text ''Error querying miner '')
                        (Join (Num u) (Join (Text '': '') (Str x))))],
            Inr [])"
    by blast
  with src q ne show ?thesis
    by (simp add: query_data_try_def Let_def DataSource_lookup_def process_data_Nil slice_to_Nil)
qed
subsection \<open>Source validation\<close>

lemma upper_char_idem: "upper_char (upper_char c) = upper_char c"
  by (auto simp: upper_char_def split: if_splits)
lemma upper_idem: "upper (upper s) = upper s"
  by (simp add: upper_def upper_char_idem)
lemma validate_source_recognized:
  "validate_source ds src = Inr v \<longleftrightarrow> ds (upper src) = Some v"
  by (auto simp: validate_source_def DataSource_lookup_def split: option.splits)
lemma validate_source_case_insensitive:
  "upper s = upper t \<Longrightarrow> (validate_source ds s = Inr v) = (validate_source ds t = Inr v)"
  by (simp add: validate_source_def DataSource_lookup_def split: option.splits)
lemma stats_unknown_source_500:
  assumes "ds (upper src) = None"
  shows "http_status (snd (get_label_sizes ds st src)) = 500"
    and "http_status (snd (get_age_sizes ds st src)) = 500"
  using assms
  by (simp_all add: get_label_sizes_def get_label_sizes_try_def get_age_sizes_def
      get_age_sizes_try_def validate_source_def DataSource_lookup_def)
subsection \<open>Lock and connection\<close>

lemma read_rows_no_lock_events:
  "LockAcquire \<notin> set (fst (read_rows st records)) \<and> LockRelease \<notin> set (fst (read_rows st records))"
  by (simp add: read_rows_def split: option.splits)
lemma read_rows_close_iff:
  "ConnectionClose \<in> set (fst (read_rows st records)) \<longleftrightarrow> snd (read_rows st records) = Inr records"
  by (simp add: read_rows_def split: option.splits)
lemma read_rows_open_not_closed:
  "CreateConnection \<in> set (fst (read_rows st records)) \<and> ConnectionClose \<notin> set (fst (read_rows st records))
     \<longleftrightarrow> create_connection_error st = None \<and> (execute_error st \<noteq> None \<or> fetchall_error st \<noteq> None)"
  by (auto simp: read_rows_def split: option.splits)
lemma get_label_sizes_try_lock:
  assumes "ds (upper src) = Some source_id"
  shows "\<exists>records. get_label_sizes_try ds st src =
           (LockAcquire # fst (read_rows st records) @ [LockRelease], snd (read_rows st records))"
  using assms
  by (auto simp: get_label_sizes_try_def validate_source_def DataSource_lookup_def with_lock_def)
lemma get_age_sizes_try_lock:
  assumes "ds (upper src) = Some source_id"
  shows "\<exists>records. get_age_sizes_try ds st src =
           (LockAcquire # fst (read_rows st records) @ [LockRelease], snd (read_rows st records))"
  using assms
  by (auto simp: get_age_sizes_try_def validate_source_def DataSource_lookup_def with_lock_def)
subsection \<open>The label query\<close>

lemma get_label_sizes_returned:
  assumes "ds (upper src) = Some source_id"
  shows "snd (get_label_sizes ds st src) = Inr labels \<longleftrightarrow>
           create_connection_error st = None \<and> execute_error st = None \<and> fetchall_error st = None
           \<and> labels = map (\<lambda>r. LabelSize (ls_labelValue r) (ls_contentSizeBytes r) (ls_adjContentSizeBytes r))
                 (order_by_desc ls_adjContentSizeBytes
                    (filter (\<lambda>r. ls_source r = source_id) (APILabelSize st)))"
  using assms
  by (auto simp: get_label_sizes_def get_label_sizes_try_def validate_source_def
      DataSource_lookup_def with_lock_def read_rows_def select_label_sizes_def
      split: option.splits)
lemma distinct_labels_of_source:
  assumes "distinct (map (\<lambda>r. (ls_source r, ls_labelValue r)) tbl)"
  shows "distinct (map ls_labelValue (filter (\<lambda>r. ls_source r = source_id) tbl))"
proof -
  from assms have "distinct (map (\<lambda>r. (ls_source r, ls_labelValue r)) (filter (\<lambda>r. ls_source r = source_id) tbl))"
    by (rule distinct_map_filter)
  then have d: "distinct (filter (\<lambda>r. ls_source r = source_id) tbl)"
    and i: "inj_on (\<lambda>r. (ls_source r, ls_labelValue r)) (set (filter (\<lambda>r. ls_source r = source_id) tbl))"
    by (simp_all add: distinct_map)
  from i have "inj_on ls_labelValue (set (filter (\<lambda>r. ls_source r = source_id) tbl))"
    by (auto simp: inj_on_def)
  with d show ?thesis
    by (simp add: distinct_map)
qed
subsection \<open>The age query\<close>

lemma miner_join_index_set:
  "set (miner_join_index ms ixs) =
     {(m, i). m \<in> set ms \<and> i \<in> set ixs \<and> mi_minerId i = m_minerId m}"
  by (auto simp: miner_join_index_def)
section \<open>Properties of POST /query\<close>

text \<open>
  C1: a request to POST /query for which the set of eligible peers is empty should be
  answered with status 503. The handler raises \<^verbatim>\<open>HTTPException(503, "No miners available")\<close>
  inside its own \<^verbatim>\<open>try\<close> block, whose \<^verbatim>\<open>except Exception\<close> clause catches it and raises
  \<^verbatim>\<open>HTTPException(500, ...)\<close> in its place: with the validator as the only neuron the
  pool is empty and the answer has status 500, not 503.
\<close>

theorem query_no_eligible_peers_status:
  "get_miner_uids (metagraph (the_validator ex_env_alone)) (uid (the_validator ex_env_alone)) = []
   \<and> snd (query_data ex_env_alone ex_request) =
        Inl (HTTPException 500 (Str (HTTPException 503 (Text ''No miners available''))))
   \<and> http_status (snd (query_data ex_env_alone ex_request)) = 500"
  by code_simp

text \<open>
  C3: every request to POST /query issues at most one call of \<^verbatim>\<open>dendrite.forward\<close>; a call
  that is issued has timeout 30 and goes to the single peer at the drawn index of the full
  eligible pool. Whenever the dispatch is reached (at least two eligible peers, a
  recognized source), the draw \<open>i\<close> sends the call to the \<open>i\<close>-th member of the pool, so
  each member is the target of exactly the draws that select its index; and the pool
  always has a member outside the qualified top half, so the target is not restricted to
  that half.
\<close>

theorem query_single_dispatch_from_pool:
  fixes e :: "('w::linorder, 'a) env"
  shows
  "length (forward_calls (fst (query_data e request))) \<le> 1
   \<and> (\<forall>c \<in> set (forward_calls (fst (query_data e request))).
        \<exists>i src. i < length (get_miner_uids (metagraph (the_validator e)) (uid (the_validator e)))
          \<and> i = random_draw e mod length (get_miner_uids (metagraph (the_validator e)) (uid (the_validator e)))
          \<and> DataSource e (upper (source request)) = Some src
          \<and> c = DendriteForward
                  [axon (metagraph (the_validator e) !
                     (get_miner_uids (metagraph (the_validator e)) (uid (the_validator e)) ! i))]
                  (OnDemandRequest src (usernames request) (keywords' request)
                     (start_date request) (end_date request) (limit request))
                  30)
   \<and> (\<forall>i src.
        2 \<le> length (get_miner_uids (metagraph (the_validator e)) (uid (the_validator e)))
        \<longrightarrow> DataSource e (upper (source request)) = Some src
        \<longrightarrow> random_draw e mod length (get_miner_uids (metagraph (the_validator e)) (uid (the_validator e))) = i
        \<longrightarrow> forward_calls (fst (query_data e request)) =
              [DendriteForward
                  [axon (metagraph (the_validator e) !
                     (get_miner_uids (metagraph (the_validator e)) (uid (the_validator e)) ! i))]
                  (OnDemandRequest src (usernames request) (keywords' request)
                     (start_date request) (end_date request) (limit request))
                  30])
   \<and> (\<forall>miners.
        2 \<le> length (get_miner_uids (metagraph (the_validator e)) (uid (the_validator e)))
        \<longrightarrow> qualified_miners (metagraph (the_validator e))
              (get_miner_uids (metagraph (the_validator e)) (uid (the_validator e))) = Inr miners
        \<longrightarrow> (\<exists>i < length (get_miner_uids (metagraph (the_validator e)) (uid (the_validator e))).
              get_miner_uids (metagraph (the_validator e)) (uid (the_validator e)) ! i \<notin> set miners))"
proof -
  let ?mg = "metagraph (the_validator e)"
  let ?pool = "get_miner_uids ?mg (uid (the_validator e))"
  let ?calls = "forward_calls (fst (query_data e request))"
  let ?syn = "\<lambda>src. OnDemandRequest src (usernames request) (keywords' request)
                     (start_date request) (end_date request) (limit request)"
  have miners: "\<forall>u \<in> set ?pool. is_miner u ?mg"
    by (simp add: get_miner_uids_is_miner)
  have reached: "?calls = [DendriteForward [axon (?mg ! (?pool ! (random_draw e mod length ?pool)))] (?syn src) 30]"
    if "2 \<le> length ?pool" and "DataSource e (upper (source request)) = Some src" for src
  proof -
    from that(1) have "?pool \<noteq> []" by auto
    then have "forward_calls (fst (query_miners e ?pool (?syn src))) =
       [DendriteForward [axon (?mg ! (?pool ! (random_draw e mod length ?pool)))] (?syn src) 30]"
      using miners by (rule query_miners_pool_calls(1))
    with that show ?thesis
      by (simp add: query_data_calls query_data_try_calls_reached)
  qed
  have unreached: "?calls = []"
    if "\<not> 2 \<le> length ?pool \<or> DataSource e (upper (source request)) = None"
  proof -
    from that have "fst (query_data_try e request) = []"
      by (rule query_data_try_calls_unreached)
    then show ?thesis
      unfolding query_data_calls by (simp add: forward_calls_def)
  qed
  have cases: "(\<not> 2 \<le> length ?pool \<or> DataSource e (upper (source request)) = None)
     \<or> (2 \<le> length ?pool \<and> (\<exists>src. DataSource e (upper (source request)) = Some src))"
    by (cases "DataSource e (upper (source request))") auto
  have one: "length ?calls \<le> 1"
  proof (cases "2 \<le> length ?pool \<and> (\<exists>src. DataSource e (upper (source request)) = Some src)")
    case True
    then obtain src where "2 \<le> length ?pool" and "DataSource e (upper (source request)) = Some src"
      by blast
    then have "?calls = [DendriteForward [axon (?mg ! (?pool ! (random_draw e mod length ?pool)))] (?syn src) 30]"
      by (rule reached)
    then show ?thesis by simp
  next
    case False
    with cases have "?calls = []"
      using unreached by blast
    then show ?thesis by simp
  qed
  have target: "\<forall>c \<in> set ?calls.
        \<exists>i src. i < length ?pool \<and> i = random_draw e mod length ?pool
          \<and> DataSource e (upper (source request)) = Some src
          \<and> c = DendriteForward [axon (?mg ! (?pool ! i))] (?syn src) 30"
  proof
    fix c
    assume c: "c \<in> set ?calls"
    have "\<not> (\<not> 2 \<le> length ?pool \<or> DataSource e (upper (source request)) = None)"
    proof
      assume "\<not> 2 \<le> length ?pool \<or> DataSource e (upper (source request)) = None"
      then have "?calls = []" by (rule unreached)
      with c show False by simp
    qed
    then have "2 \<le> length ?pool" and "\<exists>src. DataSource e (upper (source request)) = Some src"
      by auto
    then obtain src where src: "DataSource e (upper (source request)) = Some src"
      by blast
    from \<open>2 \<le> length ?pool\<close> have "0 < length ?pool"
      by linarith
    then have "random_draw e mod length ?pool < length ?pool"
      by (rule mod_less_divisor)
    moreover from c reached [OF \<open>2 \<le> length ?pool\<close> src]
    have "c = DendriteForward [axon (?mg ! (?pool ! (random_draw e mod length ?pool)))] (?syn src) 30"
      by simp
    ultimately show "\<exists>i src. i < length ?pool \<and> i = random_draw e mod length ?pool
          \<and> DataSource e (upper (source request)) = Some src
          \<and> c = DendriteForward [axon (?mg ! (?pool ! i))] (?syn src) 30"
      using src by blast
  qed
  have every: "\<forall>i src. 2 \<le> length ?pool
        \<longrightarrow> DataSource e (upper (source request)) = Some src
        \<longrightarrow> random_draw e mod length ?pool = i
        \<longrightarrow> ?calls = [DendriteForward [axon (?mg ! (?pool ! i))] (?syn src) 30]"
    using reached by blast
  have outside: "\<forall>miners. 2 \<le> length ?pool
        \<longrightarrow> qualified_miners ?mg ?pool = Inr miners
        \<longrightarrow> (\<exists>i < length ?pool. ?pool ! i \<notin> set miners)"
    using pool_member_outside_qualified by blast
  from one target every outside show ?thesis
    by (intro conjI)
qed
theorem query_single_dispatch_from_pool_witness:
  "2 \<le> length (get_miner_uids (metagraph (the_validator ex_env)) (uid (the_validator ex_env)))
   \<and> DataSource ex_env (upper (source ex_request)) = Some 1
   \<and> random_draw ex_env mod length (get_miner_uids (metagraph (the_validator ex_env)) (uid (the_validator ex_env))) = 1
   \<and> get_miner_uids (metagraph (the_validator ex_env)) (uid (the_validator ex_env)) ! 1 = 3
   \<and> qualified_miners (metagraph (the_validator ex_env))
         (get_miner_uids (metagraph (the_validator ex_env)) (uid (the_validator ex_env))) = Inr [1]
   \<and> forward_calls (fst (query_data ex_env ex_request)) =
        [DendriteForward
           [axon (metagraph (the_validator ex_env) !
              (get_miner_uids (metagraph (the_validator ex_env)) (uid (the_validator ex_env)) ! 1))]
           (OnDemandRequest 1 (usernames ex_request) (keywords' ex_request)
              (start_date ex_request) (end_date ex_request) (limit ex_request))
           30]"
proof -
  have h1: "2 \<le> length (get_miner_uids (metagraph (the_validator ex_env)) (uid (the_validator ex_env)))"
    by code_simp
  have h2: "DataSource ex_env (upper (source ex_request)) = Some 1"
    by code_simp
  have h3: "random_draw ex_env mod length (get_miner_uids (metagraph (the_validator ex_env)) (uid (the_validator ex_env))) = 1"
    by code_simp
  have h4: "get_miner_uids (metagraph (the_validator ex_env)) (uid (the_validator ex_env)) ! 1 = 3"
    by code_simp
  have h5: "qualified_miners (metagraph (the_validator ex_env))
         (get_miner_uids (metagraph (the_validator ex_env)) (uid (the_validator ex_env))) = Inr [1]"
    by code_simp
  from query_single_dispatch_from_pool [of ex_env ex_request] h1 h2 h3
  have "forward_calls (fst (query_data ex_env ex_request)) =
        [DendriteForward
           [axon (metagraph (the_validator ex_env) !
              (get_miner_uids (metagraph (the_validator ex_env)) (uid (the_validator ex_env)) ! 1))]
           (OnDemandRequest 1 (usernames ex_request) (keywords' ex_request)
              (start_date ex_request) (end_date ex_request) (limit ex_request))
           30]"
    by blast
  with h1 h2 h3 h4 h5 show ?thesis
    by (intro conjI)
qed
text \<open>
  C4: for every list of payloads and every positive limit, the merged data are the first
  occurrences (by the hash of the item's string form) of the flattened payloads, in
  arrival order, cut to the limit; so no two items of the data share a hash and the data
  are no longer than the limit, also in every successful response of the handler.
\<close>

theorem merge_first_occurrences_truncated:
  fixes e :: "('w::linorder, 'a) env" and h :: "'a \<Rightarrow> int"
  assumes "0 < lmt"
  shows
  "process_data h responses = first_occurrences h (concat responses)
   \<and> slice_to lmt (process_data h responses) = take (nat lmt) (process_data h responses)
   \<and> distinct (map h (process_data h responses))
   \<and> h ` set (process_data h responses) = h ` set (concat responses)
   \<and> distinct (map h (slice_to lmt (process_data h responses)))
   \<and> int (length (slice_to lmt (process_data h responses))) \<le> lmt
   \<and> (\<forall>r. snd (query_data e request) = Inr r \<longrightarrow> limit request = lmt \<longrightarrow>
         distinct (map (\<lambda>item. py_hash e (py_str e item)) (data_out r))
         \<and> int (length (data_out r)) \<le> limit request)"
proof -
  have eq: "process_data h responses = first_occurrences h (concat responses)" for h :: "'a \<Rightarrow> int" and responses
    by (rule process_data_first_occurrences)
  from assms have sl: "slice_to lmt xs = take (nat lmt) xs" for xs :: "'a list"
    by (simp add: slice_to_def)
  have d: "distinct (map h (process_data h responses))" for h :: "'a \<Rightarrow> int" and responses
    by (simp add: eq first_occurrences_distinct)
  have hs: "h ` set (process_data h responses) = h ` set (concat responses)"
    by (simp only: eq first_occurrences_hashes)
  have ds: "distinct (map h (slice_to lmt (process_data h responses)))" for h :: "'a \<Rightarrow> int" and responses
    using d [of h responses] by (simp only: sl distinct_map_take)
  from assms have len: "int (length (slice_to lmt xs)) \<le> lmt" for xs :: "'a list"
    by (simp add: slice_to_length)
  have resp: "\<forall>r. snd (query_data e request) = Inr r \<longrightarrow> limit request = lmt \<longrightarrow>
         distinct (map (\<lambda>item. py_hash e (py_str e item)) (data_out r))
         \<and> int (length (data_out r)) \<le> limit request"
  proof (intro allI impI)
    fix r
    assume r: "snd (query_data e request) = Inr r" and l: "limit request = lmt"
    from query_data_success [OF r] obtain responses' where
      "data_out r = slice_to (limit request) (process_data (\<lambda>item. py_hash e (py_str e item)) responses')"
      by auto
    with l show "distinct (map (\<lambda>item. py_hash e (py_str e item)) (data_out r))
         \<and> int (length (data_out r)) \<le> limit request"
      using ds len by simp
  qed
  from eq sl d hs ds len resp show ?thesis
    by (intro conjI)
qed
theorem merge_first_occurrences_truncated_witness:
  "(0::int) < 3
   \<and> snd (query_data ex_env ex_request) =
        Inr \<lparr>status = ''success'', data_out = [1, 2, 3],
             meta_out = \<lparr>total_responses = 1, unique_items = 3, miners_queried = 1, total_miners = 2\<rparr>\<rparr>
   \<and> limit ex_request = 3
   \<and> process_data (\<lambda>item. py_hash ex_env (py_str ex_env item)) [[1, 2, 1, 3], [3, 4]] = [1, 2, 3, 4]
   \<and> slice_to 3 (process_data (\<lambda>item. py_hash ex_env (py_str ex_env item)) [[1, 2, 1, 3], [3, 4]]) = [1, 2, 3]
   \<and> distinct (map (\<lambda>item. py_hash ex_env (py_str ex_env item))
        (slice_to 3 (process_data (\<lambda>item. py_hash ex_env (py_str ex_env item)) [[1, 2, 1, 3], [3, 4]])))
   \<and> distinct (map (\<lambda>item. py_hash ex_env (py_str ex_env item))
        (data_out \<lparr>status = ''success'', data_out = [1, 2, 3],
             meta_out = \<lparr>total_responses = 1, unique_items = 3, miners_queried = 1, total_miners = 2\<rparr>\<rparr>))"
proof -
  have h0: "(0::int) < 3"
    by simp
  have h1: "snd (query_data ex_env ex_request) =
        Inr \<lparr>status = ''success'', data_out = [1, 2, 3],
             meta_out = \<lparr>total_responses = 1, unique_items = 3, miners_queried = 1, total_miners = 2\<rparr>\<rparr>"
    by code_simp
  have h2: "limit ex_request = 3"
    by code_simp
  have h3: "process_data (\<lambda>item. py_hash ex_env (py_str ex_env item)) [[1, 2, 1, 3], [3, 4]] = [1, 2, 3, 4]"
    by code_simp
  have h4: "slice_to 3 (process_data (\<lambda>item. py_hash ex_env (py_str ex_env item)) [[1, 2, 1, 3], [3, 4]]) = [1, 2, 3]"
    by code_simp
  note t = merge_first_occurrences_truncated [OF h0, of "\<lambda>item. py_hash ex_env (py_str ex_env item)"
      "[[1, 2, 1, 3], [3, 4]]" ex_env ex_request]
  from t have h5: "distinct (map (\<lambda>item. py_hash ex_env (py_str ex_env item))
        (slice_to 3 (process_data (\<lambda>item. py_hash ex_env (py_str ex_env item)) [[1, 2, 1, 3], [3, 4]])))"
    by blast
  from t h1 h2 have h6: "distinct (map (\<lambda>item. py_hash ex_env (py_str ex_env item))
        (data_out \<lparr>status = ''success'', data_out = [1, 2, 3],
             meta_out = \<lparr>total_responses = 1, unique_items = 3, miners_queried = 1, total_miners = 2\<rparr>\<rparr>))"
    by blast
  from h0 h1 h2 h3 h4 h5 h6 show ?thesis
    by (intro conjI)
qed
text \<open>
  C5: the eligible pool holds the neurons that are no coordinators and not the caller; the
  qualified miners are the first \<open>n div 2\<close> members of the pool ranked descending by
  incentive (\<open>n\<close> the size of the pool), and the number of qualified miners is what a
  successful response reports as \<open>miners_queried\<close>.
\<close>

theorem qualified_is_ranked_top_half:
  fixes e :: "('w::linorder, 'a) env"
  shows
  "set (get_miner_uids (metagraph (the_validator e)) (uid (the_validator e))) =
     {u. u < length (metagraph (the_validator e))
         \<and> \<not> coordinator (metagraph (the_validator e) ! u)
         \<and> u \<noteq> uid (the_validator e)}
   \<and> (\<exists>ranked.
         mset ranked = mset (get_miner_uids (metagraph (the_validator e)) (uid (the_validator e)))
       \<and> sorted_wrt (\<lambda>a b. incentive (metagraph (the_validator e) ! b)
                              \<le> incentive (metagraph (the_validator e) ! a)) ranked
       \<and> qualified_miners (metagraph (the_validator e))
             (get_miner_uids (metagraph (the_validator e)) (uid (the_validator e)))
           = Inr (take (length (get_miner_uids (metagraph (the_validator e)) (uid (the_validator e))) div 2) ranked)
       \<and> length (take (length (get_miner_uids (metagraph (the_validator e)) (uid (the_validator e))) div 2) ranked)
           = length (get_miner_uids (metagraph (the_validator e)) (uid (the_validator e))) div 2
       \<and> (\<forall>r. snd (query_data e request) = Inr r \<longrightarrow>
             miners_queried (meta_out r)
               = length (take (length (get_miner_uids (metagraph (the_validator e)) (uid (the_validator e))) div 2) ranked)
           \<and> miners_queried (meta_out r)
               = length (get_miner_uids (metagraph (the_validator e)) (uid (the_validator e))) div 2
           \<and> total_miners (meta_out r)
               = length (get_miner_uids (metagraph (the_validator e)) (uid (the_validator e)))))"
proof -
  let ?mg = "metagraph (the_validator e)"
  let ?pool = "get_miner_uids ?mg (uid (the_validator e))"
  let ?ranked = "sorted_reverse (\<lambda>u. incentive (?mg ! u)) ?pool"
  have pool: "set ?pool = {u. u < length ?mg \<and> \<not> coordinator (?mg ! u) \<and> u \<noteq> uid (the_validator e)}"
    by (rule get_miner_uids_set)
  have perm: "mset ?ranked = mset ?pool"
    by (rule sorted_reverse_mset)
  have desc: "sorted_wrt (\<lambda>a b. incentive (?mg ! b) \<le> incentive (?mg ! a)) ?ranked"
    by (rule sorted_reverse_descending)
  have q: "qualified_miners ?mg ?pool = Inr (take (length ?pool div 2) ?ranked)"
    by (rule qualified_miners_pool)
  then have len: "length (take (length ?pool div 2) ?ranked) = length ?pool div 2"
    by (rule qualified_miners_length)
  have reported: "\<forall>r. snd (query_data e request) = Inr r \<longrightarrow>
             miners_queried (meta_out r) = length (take (length ?pool div 2) ?ranked)
           \<and> miners_queried (meta_out r) = length ?pool div 2
           \<and> total_miners (meta_out r) = length ?pool"
  proof (intro allI impI)
    fix r
    assume "snd (query_data e request) = Inr r"
    from query_data_success [OF this] obtain miners where
      "qualified_miners ?mg ?pool = Inr miners" and
      "miners_queried (meta_out r) = length miners" and
      "total_miners (meta_out r) = length ?pool"
      by auto
    with q len
    show "miners_queried (meta_out r) = length (take (length ?pool div 2) ?ranked)
           \<and> miners_queried (meta_out r) = length ?pool div 2
           \<and> total_miners (meta_out r) = length ?pool"
      by simp
  qed
  from perm desc q len reported
  have "\<exists>ranked. mset ranked = mset ?pool
       \<and> sorted_wrt (\<lambda>a b. incentive (?mg ! b) \<le> incentive (?mg ! a)) ranked
       \<and> qualified_miners ?mg ?pool = Inr (take (length ?pool div 2) ranked)
       \<and> length (take (length ?pool div 2) ranked) = length ?pool div 2
       \<and> (\<forall>r. snd (query_data e request) = Inr r \<longrightarrow>
             miners_queried (meta_out r) = length (take (length ?pool div 2) ranked)
           \<and> miners_queried (meta_out r) = length ?pool div 2
           \<and> total_miners (meta_out r) = length ?pool)"
    by (intro exI [of _ ?ranked] conjI)
  with pool show ?thesis
    by (intro conjI)
qed
theorem qualified_is_ranked_top_half_witness:
  "snd (query_data ex_env ex_request) =
        Inr \<lparr>status = ''success'', data_out = [1, 2, 3],
             meta_out = \<lparr>total_responses = 1, unique_items = 3, miners_queried = 1, total_miners = 2\<rparr>\<rparr>
   \<and> get_miner_uids (metagraph (the_validator ex_env)) (uid (the_validator ex_env)) = [1, 3]
   \<and> qualified_miners (metagraph (the_validator ex_env))
        (get_miner_uids (metagraph (the_validator ex_env)) (uid (the_validator ex_env))) = Inr [1]
   \<and> miners_queried (meta_out \<lparr>status = ''success'', data_out = [1, 2, 3::nat],
             meta_out = \<lparr>total_responses = 1, unique_items = 3, miners_queried = 1, total_miners = 2\<rparr>\<rparr>)
       = length (get_miner_uids (metagraph (the_validator ex_env)) (uid (the_validator ex_env))) div 2"
proof -
  have h1: "snd (query_data ex_env ex_request) =
        Inr \<lparr>status = ''success'', data_out = [1, 2, 3],
             meta_out = \<lparr>total_responses = 1, unique_items = 3, miners_queried = 1, total_miners = 2\<rparr>\<rparr>"
    by code_simp
  have h2: "get_miner_uids (metagraph (the_validator ex_env)) (uid (the_validator ex_env)) = [1, 3]"
    by code_simp
  have h3: "qualified_miners (metagraph (the_validator ex_env))
        (get_miner_uids (metagraph (the_validator ex_env)) (uid (the_validator ex_env))) = Inr [1]"
    by code_simp
  from qualified_is_ranked_top_half [of ex_env ex_request] h1
  have h4: "miners_queried (meta_out \<lparr>status = ''success'', data_out = [1, 2, 3::nat],
             meta_out = \<lparr>total_responses = 1, unique_items = 3, miners_queried = 1, total_miners = 2\<rparr>\<rparr>)
       = length (get_miner_uids (metagraph (the_validator ex_env)) (uid (the_validator ex_env))) div 2"
    by blast
  from h1 h2 h3 h4 show ?thesis
    by (intro conjI)
qed
text \<open>
  C9: when the call to the peer raises (a timeout, a transport error, any exception), the
  handler logs the error and goes on with no payload from that peer: the request
  completes with status "success", empty data and no response counted, and nothing is
  raised to the caller.
\<close>

theorem peer_failure_is_absorbed:
  fixes e :: "('w::linorder, 'a) env"
  assumes "DendriteForward axs syn t \<in> set (fst (query_data e request))"
    and "forward e axs syn t = Raised x"
  shows
  "(\<exists>r. snd (query_data e request) = Inr r
        \<and> status r = ''success''
        \<and> data_out r = []
        \<and> total_responses (meta_out r) = 0
        \<and> unique_items (meta_out r) = 0)
   \<and> http_status (snd (query_data e request)) = 200
   \<and> (\<exists>u. fst (query_data e request) =
          [DendriteForward axs syn t,
           LogError (Join (Text ''Error querying miner '')
                      (Join (Num u) (Join (Text '': '') (Str x))))])"
proof -
  from assms(1) have "DendriteForward axs syn t \<in> set (fst (query_data_try e request))"
    by (auto simp: query_data_def split: prod.splits sum.splits)
  from query_data_try_raised [OF this assms(2)] obtain u k where
    "query_data_try e request =
           ([DendriteForward axs syn t,
             LogError (Join (Text ''Error querying miner '')
                        (Join (Num u) (Join (Text '': '') (Str x))))],
            Inr \<lparr>status = ''success'', data_out = [],
                 meta_out = \<lparr>total_responses = 0, unique_items = 0,
                   miners_queried = k,
                   total_miners = length (get_miner_uids (metagraph (the_validator e)) (uid (the_validator e)))\<rparr>\<rparr>)"
    by blast
  then show ?thesis
    by (simp add: query_data_def)
qed
theorem peer_failure_is_absorbed_witness:
  "DendriteForward [''10.0.0.3:8091''] (OnDemandRequest 1 [] [''isabelle''] None None 3) 30
     \<in> set (fst (query_data ex_env_timeout ex_request))
   \<and> forward ex_env_timeout [''10.0.0.3:8091''] (OnDemandRequest 1 [] [''isabelle''] None None 3) 30
       = Raised TimeoutError
   \<and> http_status (snd (query_data ex_env_timeout ex_request)) = 200
   \<and> (\<exists>r. snd (query_data ex_env_timeout ex_request) = Inr r
        \<and> status r = ''success''
        \<and> data_out r = []
        \<and> total_responses (meta_out r) = 0
        \<and> unique_items (meta_out r) = 0)"
proof -
  have h1: "DendriteForward [''10.0.0.3:8091''] (OnDemandRequest 1 [] [''isabelle''] None None 3) 30
     \<in> set (fst (query_data ex_env_timeout ex_request))"
    by code_simp
  have h2: "forward ex_env_timeout [''10.0.0.3:8091''] (OnDemandRequest 1 [] [''isabelle''] None None 3) 30
       = Raised TimeoutError"
    by code_simp
  from peer_failure_is_absorbed [OF h1 h2] h1 h2 show ?thesis
    by (intro conjI) blast+
qed
text \<open>
  C10: a request to POST /query whose source names no member of \<^verbatim>\<open>DataSource\<close> is answered
  with status 500, never 400: when the lookup is reached (at least two eligible peers), its
  \<^verbatim>\<open>KeyError\<close> is caught by the generic \<^verbatim>\<open>except Exception\<close> clause, logged, and raised
  again as \<^verbatim>\<open>HTTPException(500, str(e))\<close>; with fewer eligible peers the request has
  failed with status 500 before the lookup.
\<close>

theorem query_unknown_source_is_500:
  fixes e :: "('w::linorder, 'a) env"
  assumes "DataSource e (upper (source request)) = None"
  shows
  "http_status (snd (query_data e request)) = 500
   \<and> (2 \<le> length (get_miner_uids (metagraph (the_validator e)) (uid (the_validator e))) \<longrightarrow>
        query_data e request =
          ([LogError (Join (Text ''Error processing request: '')
                       (Str (KeyError (upper (source request)))))],
           Inl (HTTPException 500 (Str (KeyError (upper (source request)))))))"
proof -
  let ?pool = "get_miner_uids (metagraph (the_validator e)) (uid (the_validator e))"
  obtain miners where q: "qualified_miners (metagraph (the_validator e)) ?pool = Inr miners"
    by (simp add: qualified_miners_pool)
  then have l: "length miners = length ?pool div 2"
    by (rule qualified_miners_length)
  from q assms have status: "http_status (snd (query_data e request)) = 500"
    by (simp add: query_data_def query_data_try_def Let_def DataSource_lookup_def)
  have key: "query_data e request =
          ([LogError (Join (Text ''Error processing request: '')
                       (Str (KeyError (upper (source request)))))],
           Inl (HTTPException 500 (Str (KeyError (upper (source request))))))"
    if "2 \<le> length ?pool"
  proof -
    from that l have "miners \<noteq> []" by auto
    with q assms show ?thesis
      by (simp add: query_data_def query_data_try_def Let_def DataSource_lookup_def)
  qed
  from status key show ?thesis
    by blast
qed
theorem query_unknown_source_is_500_witness:
  "DataSource ex_env (upper (source ex_request_unknown)) = None
   \<and> 2 \<le> length (get_miner_uids (metagraph (the_validator ex_env)) (uid (the_validator ex_env)))
   \<and> http_status (snd (query_data ex_env ex_request_unknown)) = 500
   \<and> query_data ex_env ex_request_unknown =
          ([LogError (Join (Text ''Error processing request: '')
                       (Str (KeyError (upper (source ex_request_unknown)))))],
           Inl (HTTPException 500 (Str (KeyError (upper (source ex_request_unknown))))))"
proof -
  have h1: "DataSource ex_env (upper (source ex_request_unknown)) = None"
    by code_simp
  have h2: "2 \<le> length (get_miner_uids (metagraph (the_validator ex_env)) (uid (the_validator ex_env)))"
    by code_simp
  from query_unknown_source_is_500 [OF h1] h1 h2 show ?thesis
    by (intro conjI) blast+
qed
section \<open>Properties of the statistics endpoints\<close>

text \<open>
  C2: a source string that names no recognized data source should be answered with status
  400 by GET /labels/{source} and GET /ages/{source}; a recognized name is accepted in any
  casing. The casing part holds (\<open>ReDdIt\<close> is answered with status 200). For an unknown
  source both handlers raise \<^verbatim>\<open>HTTPException(400, ...)\<close> inside their outer \<^verbatim>\<open>try\<close>
  block, whose \<^verbatim>\<open>except Exception\<close> clause catches it and raises
  \<^verbatim>\<open>HTTPException(500, ...)\<close>: for the unknown source \<open>myspace\<close> both answers have
  status 500, not 400.
\<close>

theorem stats_unknown_source_status:
  "ex_sources (upper ''myspace'') = None
   \<and> snd (get_label_sizes ex_sources ex_store ''myspace'') =
        Inl (HTTPException 500 (Str (HTTPException 400 (Text ''Invalid source: myspace''))))
   \<and> http_status (snd (get_label_sizes ex_sources ex_store ''myspace'')) = 500
   \<and> snd (get_age_sizes ex_sources ex_store ''myspace'') =
        Inl (HTTPException 500 (Join (Text ''Error retrieving age sizes: '')
               (Str (HTTPException 400 (Text ''Invalid source: myspace'')))))
   \<and> http_status (snd (get_age_sizes ex_sources ex_store ''myspace'')) = 500
   \<and> http_status (snd (get_label_sizes ex_sources ex_store ''ReDdIt'')) = 200
   \<and> http_status (snd (get_age_sizes ex_sources ex_store ''ReDdIt'')) = 200"
  by code_simp

text \<open>
  C6: for a recognized source and a store that answers, GET /labels/{source} returns the
  rows of the source in \<^verbatim>\<open>APILabelSize\<close>, each as one record with its label, raw size and
  adjusted size, sorted descending by adjusted size; as the table holds one row per source
  and label, that is one record per label.
\<close>

theorem label_sizes_sorted_by_adjusted_size:
  assumes "ds (upper src) = Some source_id"
  shows
  "(create_connection_error st = None \<and> execute_error st = None \<and> fetchall_error st = None
      \<longrightarrow> (\<exists>labels. get_label_sizes ds st src =
             ([LockAcquire, CreateConnection, Execute, FetchAll, ConnectionClose, LockRelease],
              Inr labels)))
   \<and> (\<forall>labels. snd (get_label_sizes ds st src) = Inr labels \<longrightarrow>
        sorted_wrt (\<lambda>a b. adj_content_size_bytes b \<le> adj_content_size_bytes a) labels
      \<and> mset labels =
          mset (map (\<lambda>r. LabelSize (ls_labelValue r) (ls_contentSizeBytes r) (ls_adjContentSizeBytes r))
                 (filter (\<lambda>r. ls_source r = source_id) (APILabelSize st)))
      \<and> (APILabelSize_key (APILabelSize st) \<longrightarrow> distinct (map label_value labels)))"
proof -
  let ?rows = "filter (\<lambda>r. ls_source r = source_id) (APILabelSize st)"
  let ?mk = "\<lambda>r. LabelSize (ls_labelValue r) (ls_contentSizeBytes r) (ls_adjContentSizeBytes r)"
  let ?out = "map ?mk (order_by_desc ls_adjContentSizeBytes ?rows)"
  have returned: "create_connection_error st = None \<and> execute_error st = None \<and> fetchall_error st = None
      \<longrightarrow> (\<exists>labels. get_label_sizes ds st src =
             ([LockAcquire, CreateConnection, Execute, FetchAll, ConnectionClose, LockRelease],
              Inr labels))"
    using assms
    by (simp add: get_label_sizes_def get_label_sizes_try_def validate_source_def
      DataSource_lookup_def with_lock_def read_rows_def)
  have "sorted_wrt (\<lambda>a b. ls_adjContentSizeBytes b \<le> ls_adjContentSizeBytes a)
          (order_by_desc ls_adjContentSizeBytes ?rows)"
    by (rule order_by_desc_descending)
  then have sorted_out: "sorted_wrt (\<lambda>a b. adj_content_size_bytes b \<le> adj_content_size_bytes a) ?out"
    by (simp add: sorted_wrt_map)
  have mset_out: "mset ?out = mset (map ?mk ?rows)"
    by (simp add: order_by_desc_mset)
  have distinct_out: "distinct (map label_value ?out)"
    if "APILabelSize_key (APILabelSize st)"
  proof -
    from that have "distinct (map ls_labelValue ?rows)"
      unfolding APILabelSize_key_def by (rule distinct_labels_of_source)
    with order_by_desc_mset [of ls_adjContentSizeBytes ?rows]
    have "distinct (map ls_labelValue (order_by_desc ls_adjContentSizeBytes ?rows))"
      by (rule distinct_map_mset_eq)
    then show ?thesis
      by (simp add: comp_def)
  qed
  have props: "\<forall>labels. snd (get_label_sizes ds st src) = Inr labels \<longrightarrow>
        sorted_wrt (\<lambda>a b. adj_content_size_bytes b \<le> adj_content_size_bytes a) labels
      \<and> mset labels = mset (map ?mk ?rows)
      \<and> (APILabelSize_key (APILabelSize st) \<longrightarrow> distinct (map label_value labels))"
  proof (intro allI impI)
    fix labels
    assume "snd (get_label_sizes ds st src) = Inr labels"
    with assms have "labels = ?out"
      by (simp add: get_label_sizes_returned)
    with sorted_out mset_out distinct_out
    show "sorted_wrt (\<lambda>a b. adj_content_size_bytes b \<le> adj_content_size_bytes a) labels
      \<and> mset labels = mset (map ?mk ?rows)
      \<and> (APILabelSize_key (APILabelSize st) \<longrightarrow> distinct (map label_value labels))"
      by blast
  qed
  from returned props show ?thesis
    by (rule conjI)
qed

theorem label_sizes_sorted_by_adjusted_size_witness:
  "ex_sources (upper ''Reddit'') = Some 1
   \<and> create_connection_error ex_store = None \<and> execute_error ex_store = None
   \<and> fetchall_error ex_store = None
   \<and> APILabelSize_key (APILabelSize ex_store)
   \<and> snd (get_label_sizes ex_sources ex_store ''Reddit'') =
        Inr [LabelSize ''r/b'' 90 80, LabelSize ''r/a'' 100 40]
   \<and> sorted_wrt (\<lambda>a b. adj_content_size_bytes b \<le> adj_content_size_bytes a)
        [LabelSize ''r/b'' 90 80, LabelSize ''r/a'' 100 40]
   \<and> distinct (map label_value [LabelSize ''r/b'' 90 80, LabelSize ''r/a'' 100 40])"
proof -
  have h1: "ex_sources (upper ''Reddit'') = Some 1"
    by code_simp
  have h2: "create_connection_error ex_store = None \<and> execute_error ex_store = None
      \<and> fetchall_error ex_store = None"
    by code_simp
  have h3: "APILabelSize_key (APILabelSize ex_store)"
    by code_simp
  have h4: "snd (get_label_sizes ex_sources ex_store ''Reddit'') =
        Inr [LabelSize ''r/b'' 90 80, LabelSize ''r/a'' 100 40]"
    by code_simp
  from label_sizes_sorted_by_adjusted_size
      [where ds = ex_sources and src = "''Reddit''" and source_id = 1 and st = ex_store, OF h1] h3 h4
  have "sorted_wrt (\<lambda>a b. adj_content_size_bytes b \<le> adj_content_size_bytes a)
        [LabelSize ''r/b'' 90 80, LabelSize ''r/a'' 100 40]
      \<and> distinct (map label_value [LabelSize ''r/b'' 90 80, LabelSize ''r/a'' 100 40])"
    by blast
  with h1 h2 h3 h4 show ?thesis
    by blast
qed

text \<open>
  C8: both statistics operations should hold the lock around the whole read and release
  it, and close the connection, on every path. The lock is released on every path, but
  \<^verbatim>\<open>connection.close()\<close> is reached only when nothing raised before it: when
  \<^verbatim>\<open>cursor.execute\<close> raises, the connection has been created, the lock is released, and
  the connection is never closed.
\<close>

theorem stats_failure_leaves_connection_open:
  "fst (get_label_sizes ex_sources ex_store_failing ''reddit'') =
     [LockAcquire, CreateConnection, Execute, LockRelease,
      LogError (Join (Text ''Error getting label sizes: '') (Str (StorageError ''no such table'')))]
   \<and> fst (get_age_sizes ex_sources ex_store_failing ''reddit'') =
     [LockAcquire, CreateConnection, Execute, LockRelease]
   \<and> ConnectionClose \<notin> set (fst (get_label_sizes ex_sources ex_store_failing ''reddit''))
   \<and> ConnectionClose \<notin> set (fst (get_age_sizes ex_sources ex_store_failing ''reddit''))
   \<and> http_status (snd (get_label_sizes ex_sources ex_store_failing ''reddit'')) = 500
   \<and> http_status (snd (get_age_sizes ex_sources ex_store_failing ''reddit'')) = 500"
  by code_simp

end
